theory Spec2Isabelle
  imports Main "HOL-Library.AList"
begin

section \<open>JavaScript values\<close>

text \<open>
  The views are React components. A JavaScript string is a \<open>string\<close>, one \<open>char\<close> per
  code unit; every literal of the source fits in eight bits, the letter a-umlaut of the
  Finnish messages being the code unit \<open>0xE4\<close>. A value that may be \<open>undefined\<close> or
  \<open>null\<close> is a \<open>string option\<close>, \<open>None\<close> standing for the absent value.
\<close>

definition truthy :: "string option \<Rightarrow> bool" where
  \<comment> \<open>what \<open>!!v\<close> is: \<open>undefined\<close>, \<open>null\<close> and the empty string are falsy\<close>
  "truthy v = (case v of None \<Rightarrow> False | Some s \<Rightarrow> s \<noteq> [])"


definition interpolate :: "string option \<Rightarrow> string" where
  \<comment> \<open>\<open>${v}\<close> inside a template literal: \<open>null\<close> prints as the word null\<close>
  "interpolate v = (case v of None \<Rightarrow> ''null'' | Some s \<Rightarrow> s)"

fun join :: "string \<Rightarrow> string list \<Rightarrow> string" where
  \<comment> \<open>\<open>Array.prototype.join\<close>\<close>
  "join sep [] = []"
| "join sep [x] = x"
| "join sep (x # y # ys) = x @ sep @ join sep (y # ys)"

text \<open>
  What a \<open>throw\<close> or a rejected promise carries, as far as a \<open>catch\<close> block that reads
  \<open>err.message\<close> can tell: an \<open>Error\<close> (or any object) with its message, a value with
  no \<open>message\<close> property (a string, a number, a plain object), or \<open>null\<close> or
  \<open>undefined\<close>, on which the read of \<open>message\<close> throws a \<open>TypeError\<close> itself.
\<close>

datatype exn = Error string | NoMessage | Nullish

datatype 'a promise = Resolved 'a | Rejected exn
  \<comment> \<open>what an awaited call gives: a value, or the value it rejects with\<close>

fun message :: "exn \<Rightarrow> string option option" where
  \<comment> \<open>\<open>err.message\<close>: \<open>None\<close> when the read throws, \<open>Some None\<close> when it is \<open>undefined\<close>\<close>
  "message (Error m) = Some (Some m)"
| "message NoMessage = Some None"
| "message Nullish = None"

definition interpolate_undefined :: "string option \<Rightarrow> string" where
  \<comment> \<open>\<open>${v}\<close> inside a template literal, for a value that is a string or \<open>undefined\<close>\<close>
  "interpolate_undefined v = (case v of None \<Rightarrow> ''undefined'' | Some s \<Rightarrow> s)"

section \<open>The Checkout view: data\<close>

text \<open>
  \<open>customerInfo\<close> is an object whose properties are read and written by computed name
  (\<open>customerInfo[field]\<close>, \<open>{...prev, [name]: value}\<close>): an association list from property
  names to values, in insertion order. Reading a property is \<open>map_of\<close>; the spread with
  one computed key is \<open>AList.update\<close>, which overwrites in place and appends a new key.
\<close>

type_synonym customer_info = "(string \<times> string) list"

record user_data =
  firstName :: "string option"
  lastName :: "string option"
  email :: "string option"
  address :: "string option"
  postalCode :: "string option"
  city :: "string option"
  country :: "string option"
  phone :: "string option"

record checkout_state =
  user :: "user_data option"
  loadingUser :: bool
  userError :: "string option"
  klarnaSnippet :: "string option"
  customerInfo :: customer_info
  paymentMethod :: string
  isProcessing :: bool
  error :: "string option"

record ('i, 't) cart =
  cartItems :: "'i list"
  cartTotal :: 't

text \<open>The argument of \<open>createKlarnaOrder\<close> and its resolved value.\<close>

record ('i, 't) klarna_order =
  items :: "'i list"
  total' :: 't
  customer :: customer_info

record klarna_response =
  html_snippet :: "string option"
  redirect_url :: "string option"

text \<open>
  The arguments of \<open>fetch\<close>: the body is the object handed to \<open>JSON.stringify\<close>, as an
  association list of its properties. Of the response only \<open>ok\<close> is read.
\<close>

record 'i fetch_request =
  url :: string
  http_method :: string
  headers :: "(string \<times> string) list"
  body :: "(string \<times> 'i list) list"

record fetch_response =
  ok :: bool

text \<open>
  What the handlers call and do not define: the Klarna client, \<open>fetch\<close>, the user hook,
  the API base of the build environment and the token in local storage. An awaited call
  either resolves or rejects. In \<open>handleSubmit\<close> a resolved value whose properties
  cannot be read (\<open>undefined\<close>, \<open>null\<close>) makes the read throw a \<open>TypeError\<close> inside the
  same \<open>try\<close> block before any state is set, which is the case \<open>Rejected\<close> with that
  \<open>Error\<close>. The user hook is taken to resolve to an object that has a \<open>user\<close>.
\<close>

record ('i, 't) env =
  VITE_AUTH_API :: string
  token :: "string option"
  createKlarnaOrder :: "('i, 't) klarna_order \<Rightarrow> klarna_response promise"
  fetch :: "'i fetch_request \<Rightarrow> fetch_response promise"
  getUserByToken :: "user_data promise"

text \<open>
  The effects of a handler besides its state updates, in the order they happen. The last
  one stands for an exception that leaves the handler: the \<open>TypeError\<close> thrown inside a
  \<open>catch\<close> block, with which the promise of the \<open>async\<close> handler rejects unhandled.
\<close>

datatype ('i, 't) effect =
    PreventDefault
  | KlarnaCall "('i, 't) klarna_order"
  | Alert string
  | FetchCall "'i fetch_request"
  | Navigate string
  | UncaughtTypeError

fun is_network_request :: "('i, 't) effect \<Rightarrow> bool" where
  "is_network_request (KlarnaCall _) = True"
| "is_network_request (FetchCall _) = True"
| "is_network_request _ = False"

fun is_navigation :: "('i, 't) effect \<Rightarrow> bool" where
  "is_navigation (Navigate _) = True"
| "is_navigation _ = False"


definition Checkout_init :: checkout_state where
  "Checkout_init =
     \<lparr>user = None, loadingUser = False, userError = None, klarnaSnippet = Some [],
      customerInfo =
        [(''firstName'', []), (''lastName'', []), (''email'', []), (''address'', []),
         (''postalCode'', []), (''city'', []), (''country'', ''Finland''), (''phone'', [])],
      paymentMethod = ''klarna'', isProcessing = False, error = None\<rparr>"

section \<open>The Checkout view: handlers\<close>

definition handleInputChange :: "string \<Rightarrow> string \<Rightarrow> checkout_state \<Rightarrow> checkout_state" where
  "handleInputChange name v st = st\<lparr>customerInfo := AList.update name v (customerInfo st)\<rparr>"


definition requiredFields :: "string list" where
  "requiredFields =
     [''firstName'', ''lastName'', ''email'', ''address'', ''postalCode'', ''city'', ''country'']"

definition missingFields :: "customer_info \<Rightarrow> string list" where
  "missingFields ci = filter (\<lambda>field. \<not> truthy (map_of ci field)) requiredFields"

definition klarnaOrder :: "('i, 't) cart \<Rightarrow> checkout_state \<Rightarrow> ('i, 't) klarna_order" where
  "klarnaOrder c st =
     \<lparr>items = cartItems c, total' = cartTotal c, customer = customerInfo st\<rparr>"

definition ordersRequest :: "('i, 't) env \<Rightarrow> ('i, 't) cart \<Rightarrow> 'i fetch_request" where
  "ordersRequest ev c =
     \<lparr>url = VITE_AUTH_API ev @ ''/orders'', http_method = ''POST'',
      headers = [(''Content-Type'', ''application/json''),
                 (''Authorization'', ''Bearer '' @ interpolate (token ev))],
      body = [(''meals'', cartItems c)]\<rparr>"

text \<open>
  The body of the \<open>try\<close> block of \<open>handleSubmit\<close>: the effects issued, and either the
  exception thrown (\<open>Inl\<close>) or the state reached. Console output is left out.
\<close>

definition processPayment ::
  "('i, 't) env \<Rightarrow> ('i, 't) cart \<Rightarrow> checkout_state \<Rightarrow>
     ('i, 't) effect list \<times> (exn + checkout_state)" where
  "processPayment ev c st =
     (if paymentMethod st = ''klarna'' then
        (case createKlarnaOrder ev (klarnaOrder c st) of
           Rejected err \<Rightarrow> ([KlarnaCall (klarnaOrder c st)], Inl err)
         | Resolved klarnaResponse \<Rightarrow>
             if \<not> truthy (html_snippet klarnaResponse) \<and> \<not> truthy (redirect_url klarnaResponse)
             then ([KlarnaCall (klarnaOrder c st)],
                   Inl (Error ''No valid payment URL received from Klarna''))
             else ([KlarnaCall (klarnaOrder c st)],
                   Inr (st\<lparr>klarnaSnippet := html_snippet klarnaResponse\<rparr>)))
      else if paymentMethod st = ''paypal'' then
        ([Alert ''PayPal payment is not implemented yet.''], Inr st)
      else if paymentMethod st = ''dummy'' then
        (case fetch ev (ordersRequest ev c) of
           Rejected err \<Rightarrow> ([FetchCall (ordersRequest ev c)], Inl err)
         | Resolved response \<Rightarrow>
             if \<not> ok response
             then ([FetchCall (ordersRequest ev c)],
                   Inl (Error (''Tilausta ei voitu l'' @ [CHR 0xE4] @ ''hett'' @
                               [CHR 0xE4, CHR 0xE4] @ '' tietokantaan.'')))
             else ([FetchCall (ordersRequest ev c), Navigate ''/confirmation''], Inr st))
      else ([], Inl (Error ''Invalid payment method selected'')))"

text \<open>
  \<open>handleSubmit\<close>: the validation with its early return, then the \<open>try\<close> block with its
  \<open>catch\<close> and \<open>finally\<close>. The handler reads the state of the render it was created in
  and is taken as one step. In the \<open>catch\<close> block the message is read before \<open>setError\<close>
  is called: when that read throws, no error is set, \<open>finally\<close> still runs and the
  exception leaves the handler.
\<close>

definition handleSubmit ::
  "('i, 't) env \<Rightarrow> ('i, 't) cart \<Rightarrow> checkout_state \<Rightarrow> ('i, 't) effect list \<times> checkout_state" where
  "handleSubmit ev c st =
     (let st1 = st\<lparr>isProcessing := True, error := None\<rparr> in
      if length (missingFields (customerInfo st)) > 0 then
        ([PreventDefault],
         st1\<lparr>error := Some (''Puuttuvat kent'' @ [CHR 0xE4] @ ''t: '' @
                             join '', '' (missingFields (customerInfo st))),
             isProcessing := False\<rparr>)
      else
        (case processPayment ev c st1 of
           (effs, Inl err) \<Rightarrow>
             (case message err of
                Some m \<Rightarrow>
                  (PreventDefault # effs,
                   st1\<lparr>error := Some (''Maksuvirhe: '' @ interpolate_undefined m),
                       isProcessing := False\<rparr>)
              | None \<Rightarrow>
                  (PreventDefault # effs @ [UncaughtTypeError], st1\<lparr>isProcessing := False\<rparr>))
         | (effs, Inr st2) \<Rightarrow> (PreventDefault # effs, st2\<lparr>isProcessing := False\<rparr>)))"


section \<open>The Checkout view: rendering\<close>

text \<open>
  What the component returns, reduced to the parts that depend on the state: the empty
  cart notice with its link, or the page with the user error banner, the customer panel
  (the Klarna container or the form) and the order summary.
\<close>

datatype customer_panel =
    KlarnaContainer string
  | CheckoutForm customer_info string "string option" bool

datatype ('i, 't) checkout_view =
    CartEmpty string string string
  | CheckoutPage bool "string option" customer_panel "'i list" 't

definition Checkout :: "('i, 't) cart \<Rightarrow> checkout_state \<Rightarrow> ('i, 't) checkout_view" where
  "Checkout c st =
     (if length (cartItems c) = 0 then
        CartEmpty (''Ostosk'' @ [CHR 0xE4] @ ''rrysi on tyhj'' @ [CHR 0xE4] @ ''!'')
          ''/shop'' ''Jatka shoppailua''
      else
        CheckoutPage (loadingUser st)
          (if truthy (userError st) then userError st else None)
          (case klarnaSnippet st of
             None \<Rightarrow>
               CheckoutForm (customerInfo st) (paymentMethod st)
                 (if truthy (error st) then error st else None) (isProcessing st)
           | Some snippet \<Rightarrow>
               if snippet \<noteq> [] then KlarnaContainer snippet
               else CheckoutForm (customerInfo st) (paymentMethod st)
                      (if truthy (error st) then error st else None) (isProcessing st))
          (cartItems c) (cartTotal c))"

fun has_form :: "('i, 't) checkout_view \<Rightarrow> bool" where
  \<comment> \<open>the only element with \<open>onSubmit={handleSubmit}\<close>\<close>
  "has_form (CheckoutPage _ _ (CheckoutForm _ _ _ _) _ _) = True"
| "has_form _ = False"


fun inline_snippet :: "('i, 't) checkout_view \<Rightarrow> string option" where
  "inline_snippet (CheckoutPage _ _ (KlarnaContainer s) _ _) = Some s"
| "inline_snippet _ = None"

section \<open>The Checkout view: user interaction\<close>



section \<open>The admin Profile view\<close>

record ('m, 'n) profile_state =
  meals :: "'m list"
  isLoading :: bool
  error' :: "string option"
  activeTab :: string
  newsletters :: "'n list"

definition Profile_init :: "('m, 'n) profile_state" where
  "Profile_init =
     \<lparr>meals = [], isLoading = True, error' = None, activeTab = ''mealPackages'',
      newsletters = []\<rparr>"

definition setActiveTab :: "string \<Rightarrow> ('m, 'n) profile_state \<Rightarrow> ('m, 'n) profile_state" where
  "setActiveTab t st = st\<lparr>activeTab := t\<rparr>"

text \<open>
  The three panels with the state they are given: the meal panel (add form and list),
  the order tracking panel, the newsletter panel (add form and list).
\<close>

datatype ('m, 'n) tab_panel =
    MealPackagesPanel "'m list" bool "string option"
  | OrderTrackingPanel
  | NewsletterPanel "'n list"

definition renderTabContent :: "('m, 'n) profile_state \<Rightarrow> ('m, 'n) tab_panel option" where
  "renderTabContent st =
     (if activeTab st = ''mealPackages'' then
        Some (MealPackagesPanel (meals st) (isLoading st) (error' st))
      else if activeTab st = ''orderTracking'' then Some OrderTrackingPanel
      else if activeTab st = ''newsletter'' then Some (NewsletterPanel (newsletters st))
      else None)"

datatype ('m, 'n) profile_view =
    AdminView string "('m, 'n) tab_panel option"
  | UserProfileView

definition Profile :: "string option \<Rightarrow> ('m, 'n) profile_state \<Rightarrow> ('m, 'n) profile_view" where
  \<comment> \<open>the first argument is \<open>user?.type\<close>\<close>
  "Profile user_type st =
     (if user_type = Some ''admin'' then AdminView (activeTab st) (renderTabContent st)
      else UserProfileView)"

fun panel_tab :: "('m, 'n) tab_panel \<Rightarrow> string" where
  \<comment> \<open>the tab a panel belongs to\<close>
  "panel_tab (MealPackagesPanel _ _ _) = ''mealPackages''"
| "panel_tab OrderTrackingPanel = ''orderTracking''"
| "panel_tab (NewsletterPanel _) = ''newsletter''"

fun rendered_panels :: "('m, 'n) profile_view \<Rightarrow> ('m, 'n) tab_panel list" where
  "rendered_panels (AdminView _ (Some p)) = [p]"
| "rendered_panels _ = []"

section \<open>Sample data\<close>

definition sample_customer :: customer_info where
  "sample_customer =
     [(''firstName'', ''Aino''), (''lastName'', ''Virtanen''), (''email'', ''aino@example.fi''),
      (''address'', ''Siippakuja 1''), (''postalCode'', ''00100''), (''city'', ''Helsinki''),
      (''country'', ''Finland''), (''phone'', [])]"

definition sample_state :: "string \<Rightarrow> checkout_state" where
  "sample_state m = Checkout_init\<lparr>customerInfo := sample_customer, paymentMethod := m\<rparr>"

definition sample_cart :: "(string, nat) cart" where
  "sample_cart = \<lparr>cartItems = [''Kasvislaatikko'', ''Kalalaatikko''], cartTotal = 59\<rparr>"

definition sample_env ::
  "klarna_response promise \<Rightarrow> fetch_response promise \<Rightarrow> (string, nat) env" where
  "sample_env k f =
     \<lparr>VITE_AUTH_API = ''http://localhost:3000/api/v1'', token = Some ''abc'',
      createKlarnaOrder = (\<lambda>_. k), fetch = (\<lambda>_. f),
      getUserByToken = Rejected (Error ''Unauthorized'')\<rparr>"

definition sample_profile :: "(string, string) profile_state" where
  "sample_profile = setActiveTab ''newsletter'' (Profile_init\<lparr>newsletters := [''Kes'']\<rparr>)"

section \<open>Validation\<close>

lemma truthy_simps [simp]:
  "\<not> truthy None" "truthy (Some s) = (s \<noteq> [])"
  by (simp_all add: truthy_def)

lemma interpolate_undefined_simps [simp]:
  "interpolate_undefined (Some s) = s" "interpolate_undefined None = ''undefined''"
  by (simp_all add: interpolate_undefined_def)

lemma missingFields_set:
  "set (missingFields ci) = {field \<in> set requiredFields. \<not> truthy (map_of ci field)}"
  by (simp add: missingFields_def)

lemma missingFields_distinct: "distinct (missingFields ci)"
  by (simp add: missingFields_def requiredFields_def)

lemma missingFields_Nil:
  "(missingFields ci = []) = (\<forall>field \<in> set requiredFields. truthy (map_of ci field))"
  by (auto simp: missingFields_def filter_empty_conv)

text \<open>
  The \<open>try\<close> block reads the payment method and the customer data only, so it behaves
  alike before and after \<open>setIsProcessing(true)\<close> and \<open>setError(null)\<close>.
\<close>

lemma klarnaOrder_flags [simp]:
  "klarnaOrder c (st\<lparr>isProcessing := a, error := b\<rparr>) = klarnaOrder c st"
  by (simp add: klarnaOrder_def)

lemma processPayment_flags:
  "processPayment ev c (st\<lparr>isProcessing := a, error := b\<rparr>) =
     map_prod id (map_sum id (\<lambda>s. s\<lparr>isProcessing := a, error := b\<rparr>)) (processPayment ev c st)"
  by (simp add: processPayment_def klarnaOrder_def split: promise.splits)

lemma handleSubmit_valid:
  assumes "missingFields (customerInfo st) = []"
  shows "handleSubmit ev c st =
           (case processPayment ev c st of
              (effs, Inl err) \<Rightarrow>
                (case message err of
                   Some m \<Rightarrow>
                     (PreventDefault # effs,
                      st\<lparr>isProcessing := False,
                         error := Some (''Maksuvirhe: '' @ interpolate_undefined m)\<rparr>)
                 | None \<Rightarrow>
                     (PreventDefault # effs @ [UncaughtTypeError],
                      st\<lparr>isProcessing := False, error := None\<rparr>))
            | (effs, Inr st2) \<Rightarrow> (PreventDefault # effs, st2\<lparr>isProcessing := False, error := None\<rparr>))"
  using assms
  by (cases "processPayment ev c st")
     (auto simp: handleSubmit_def processPayment_flags split: sum.splits option.splits)

text \<open>When the \<open>try\<close> block throws: the cases of the source, one by one.\<close>

lemma processPayment_raises_iff:
  "isl (snd (processPayment ev c st)) =
     (if paymentMethod st = ''klarna'' then
        (case createKlarnaOrder ev (klarnaOrder c st) of
           Rejected _ \<Rightarrow> True
         | Resolved r \<Rightarrow> \<not> truthy (html_snippet r) \<and> \<not> truthy (redirect_url r))
      else if paymentMethod st = ''paypal'' then False
      else if paymentMethod st = ''dummy'' then
        (case fetch ev (ordersRequest ev c) of
           Rejected _ \<Rightarrow> True
         | Resolved response \<Rightarrow> \<not> ok response)
      else True)"
  by (simp add: processPayment_def split: promise.splits)










section \<open>Checkout submission\<close>

text \<open>
  C1. A submission in which at least one required field of the customer data is the
  empty string sets an error message that lists the names of exactly the missing
  fields, issues no network request (neither the Klarna call nor the orders POST) and
  ends with \<open>isProcessing\<close> false.
\<close>

theorem handleSubmit_missing_fields:
  assumes "\<exists>field \<in> set requiredFields. map_of (customerInfo st) field = Some []"
  shows "\<exists>ms. error (snd (handleSubmit ev c st)) =
                 Some (''Puuttuvat kent'' @ [CHR 0xE4] @ ''t: '' @ join '', '' ms)
            \<and> distinct ms
            \<and> set ms = {field \<in> set requiredFields. \<not> truthy (map_of (customerInfo st) field)}
            \<and> (\<forall>e \<in> set (fst (handleSubmit ev c st)). \<not> is_network_request e)
            \<and> isProcessing (snd (handleSubmit ev c st)) = False"
proof -
  from assms obtain field where f: "field \<in> set requiredFields"
    and e: "map_of (customerInfo st) field = Some []" by blast
  from f e have "field \<in> set (missingFields (customerInfo st))"
    by (simp add: missingFields_set)
  then have pos: "0 < length (missingFields (customerInfo st))"
    by (cases "missingFields (customerInfo st)") auto
  show ?thesis
  proof (intro exI [of _ "missingFields (customerInfo st)"] conjI)
    show "error (snd (handleSubmit ev c st)) =
            Some (''Puuttuvat kent'' @ [CHR 0xE4] @ ''t: '' @
                  join '', '' (missingFields (customerInfo st)))"
      using pos by (simp add: handleSubmit_def)
    show "distinct (missingFields (customerInfo st))"
      by (rule missingFields_distinct)
    show "set (missingFields (customerInfo st)) =
            {field \<in> set requiredFields. \<not> truthy (map_of (customerInfo st) field)}"
      by (rule missingFields_set)
    show "\<forall>e \<in> set (fst (handleSubmit ev c st)). \<not> is_network_request e"
      using pos by (simp add: handleSubmit_def)
    show "isProcessing (snd (handleSubmit ev c st)) = False"
      using pos by (simp add: handleSubmit_def)
  qed
qed

theorem handleSubmit_missing_fields_witness:
  "map_of (customerInfo Checkout_init) ''email'' = Some []
   \<and> error (snd (handleSubmit (sample_env (Rejected (Error [])) (Rejected (Error []))) sample_cart Checkout_init)) =
       Some (''Puuttuvat kent'' @ [CHR 0xE4] @
             ''t: firstName, lastName, email, address, postalCode, city'')
   \<and> fst (handleSubmit (sample_env (Rejected (Error [])) (Rejected (Error []))) sample_cart Checkout_init) =
       [PreventDefault]
   \<and> isProcessing
       (snd (handleSubmit (sample_env (Rejected (Error [])) (Rejected (Error []))) sample_cart Checkout_init)) =
       False"
  using handleSubmit_missing_fields
    [of Checkout_init "sample_env (Rejected (Error [])) (Rejected (Error []))" sample_cart]
  by (simp add: handleSubmit_def Checkout_init_def missingFields_def requiredFields_def)

text \<open>
  C2. A submission with payment method klarna that passes the validation, the Klarna
  client having answered: when the response has neither an \<open>html_snippet\<close> nor a
  \<open>redirect_url\<close> (neither is a non-empty value, which is what the code tests), the
  \<open>try\<close> block throws, the error state holds the message and \<open>klarnaSnippet\<close> is
  as before; otherwise nothing is thrown and the error state stays empty.
\<close>

theorem handleSubmit_klarna_response:
  assumes "missingFields (customerInfo st) = []"
    and "paymentMethod st = ''klarna''"
    and "createKlarnaOrder ev (klarnaOrder c st) = Resolved r"
  shows "if \<not> truthy (html_snippet r) \<and> \<not> truthy (redirect_url r)
         then snd (processPayment ev c st) =
                Inl (Error ''No valid payment URL received from Klarna'')
            \<and> error (snd (handleSubmit ev c st)) =
                Some ''Maksuvirhe: No valid payment URL received from Klarna''
            \<and> klarnaSnippet (snd (handleSubmit ev c st)) = klarnaSnippet st
         else \<not> isl (snd (processPayment ev c st))
            \<and> error (snd (handleSubmit ev c st)) = None"
  using assms by (simp add: handleSubmit_valid) (simp add: processPayment_def)

theorem handleSubmit_klarna_response_witness:
  "missingFields (customerInfo (sample_state ''klarna'')) = []
   \<and> error (snd (handleSubmit
        (sample_env (Resolved \<lparr>html_snippet = None, redirect_url = None\<rparr>) (Rejected (Error [])))
        sample_cart (sample_state ''klarna''))) =
       Some ''Maksuvirhe: No valid payment URL received from Klarna''
   \<and> klarnaSnippet (snd (handleSubmit
        (sample_env (Resolved \<lparr>html_snippet = None, redirect_url = None\<rparr>) (Rejected (Error [])))
        sample_cart (sample_state ''klarna''))) = Some []
   \<and> error (snd (handleSubmit
        (sample_env (Resolved \<lparr>html_snippet = Some ''<div id=kco></div>'', redirect_url = None\<rparr>)
           (Rejected (Error [])))
        sample_cart (sample_state ''klarna''))) = None"
  using handleSubmit_klarna_response
      [of "sample_state ''klarna''"
          "sample_env (Resolved \<lparr>html_snippet = None, redirect_url = None\<rparr>) (Rejected (Error []))"
          sample_cart "\<lparr>html_snippet = None, redirect_url = None\<rparr>"]
    handleSubmit_klarna_response
      [of "sample_state ''klarna''"
          "sample_env (Resolved \<lparr>html_snippet = Some ''<div id=kco></div>'', redirect_url = None\<rparr>)
             (Rejected (Error []))"
          sample_cart "\<lparr>html_snippet = Some ''<div id=kco></div>'', redirect_url = None\<rparr>"]
  by (simp add: sample_state_def sample_env_def sample_customer_def Checkout_init_def
        missingFields_def requiredFields_def)

text \<open>
  C3. A submission with payment method dummy that passes the validation posts the cart
  items to the orders endpoint with a bearer \<open>Authorization\<close> header. When a response
  arrives whose status is not successful, the submission fails with the generic
  submission error and does not navigate; when the status is successful, the flow
  navigates to \<open>/confirmation\<close>.
\<close>

theorem handleSubmit_dummy:
  assumes "missingFields (customerInfo st) = []"
    and "paymentMethod st = ''dummy''"
    and "fetch ev (ordersRequest ev c) = Resolved response"
  shows "ordersRequest ev c =
           \<lparr>url = VITE_AUTH_API ev @ ''/orders'', http_method = ''POST'',
            headers = [(''Content-Type'', ''application/json''),
                       (''Authorization'', ''Bearer '' @ interpolate (token ev))],
            body = [(''meals'', cartItems c)]\<rparr>
       \<and> (if ok response
          then fst (handleSubmit ev c st) =
                 [PreventDefault, FetchCall (ordersRequest ev c), Navigate ''/confirmation'']
             \<and> error (snd (handleSubmit ev c st)) = None
          else fst (handleSubmit ev c st) = [PreventDefault, FetchCall (ordersRequest ev c)]
             \<and> error (snd (handleSubmit ev c st)) =
                 Some (''Maksuvirhe: Tilausta ei voitu l'' @ [CHR 0xE4] @ ''hett'' @
                       [CHR 0xE4, CHR 0xE4] @ '' tietokantaan.'')
             \<and> filter is_navigation (fst (handleSubmit ev c st)) = [])"
  using assms
  by (simp add: handleSubmit_valid) (simp add: processPayment_def ordersRequest_def)

theorem handleSubmit_dummy_witness:
  "missingFields (customerInfo (sample_state ''dummy'')) = []
   \<and> fst (handleSubmit (sample_env (Rejected (Error [])) (Resolved \<lparr>ok = True\<rparr>)) sample_cart
        (sample_state ''dummy'')) =
       [PreventDefault,
        FetchCall \<lparr>url = ''http://localhost:3000/api/v1/orders'', http_method = ''POST'',
                   headers = [(''Content-Type'', ''application/json''),
                              (''Authorization'', ''Bearer abc'')],
                   body = [(''meals'', [''Kasvislaatikko'', ''Kalalaatikko''])]\<rparr>,
        Navigate ''/confirmation'']
   \<and> fst (handleSubmit (sample_env (Rejected (Error [])) (Resolved \<lparr>ok = False\<rparr>)) sample_cart
        (sample_state ''dummy'')) =
       [PreventDefault,
        FetchCall \<lparr>url = ''http://localhost:3000/api/v1/orders'', http_method = ''POST'',
                   headers = [(''Content-Type'', ''application/json''),
                              (''Authorization'', ''Bearer abc'')],
                   body = [(''meals'', [''Kasvislaatikko'', ''Kalalaatikko''])]\<rparr>]
   \<and> error (snd (handleSubmit (sample_env (Rejected (Error [])) (Resolved \<lparr>ok = False\<rparr>)) sample_cart
        (sample_state ''dummy''))) =
       Some (''Maksuvirhe: Tilausta ei voitu l'' @ [CHR 0xE4] @ ''hett'' @
             [CHR 0xE4, CHR 0xE4] @ '' tietokantaan.'')"
  using handleSubmit_dummy
      [of "sample_state ''dummy''" "sample_env (Rejected (Error [])) (Resolved \<lparr>ok = True\<rparr>)"
          sample_cart "\<lparr>ok = True\<rparr>"]
    handleSubmit_dummy
      [of "sample_state ''dummy''" "sample_env (Rejected (Error [])) (Resolved \<lparr>ok = False\<rparr>)"
          sample_cart "\<lparr>ok = False\<rparr>"]
  by (simp add: sample_state_def sample_env_def sample_customer_def sample_cart_def
        Checkout_init_def missingFields_def requiredFields_def ordersRequest_def
        interpolate_def)

text \<open>
  C7. A submission with payment method klarna that passes the validation sends the
  Klarna client exactly the record of the current cart items, the cart total and the
  customer data, and no other request.
\<close>

theorem handleSubmit_klarna_request:
  assumes "missingFields (customerInfo st) = []"
    and "paymentMethod st = ''klarna''"
  shows "filter is_network_request (fst (handleSubmit ev c st)) =
           [KlarnaCall \<lparr>items = cartItems c, total' = cartTotal c,
                        customer = customerInfo st\<rparr>]"
  using assms
  by (simp add: handleSubmit_valid split: prod.splits sum.splits option.splits)
     (auto simp: processPayment_def klarnaOrder_def split: promise.splits if_splits)

theorem handleSubmit_klarna_request_witness:
  "missingFields (customerInfo (sample_state ''klarna'')) = []
   \<and> filter is_network_request
       (fst (handleSubmit (sample_env (Rejected (Error ''Failed to fetch'')) (Rejected (Error [])))
          sample_cart (sample_state ''klarna''))) =
       [KlarnaCall \<lparr>items = [''Kasvislaatikko'', ''Kalalaatikko''], total' = 59,
                    customer = sample_customer\<rparr>]"
  using handleSubmit_klarna_request
      [of "sample_state ''klarna''" "sample_env (Rejected (Error ''Failed to fetch'')) (Rejected (Error []))"
          sample_cart]
  by (simp add: sample_state_def sample_env_def sample_customer_def sample_cart_def
        Checkout_init_def missingFields_def requiredFields_def)

text \<open>
  C9. The required-field check covers exactly the seven fields firstName, lastName,
  email, address, postalCode, city and country: the fields it reports are those of the
  seven that are empty, and it does not read the phone field. A submission in which
  all seven are non-empty runs the payment branch, whatever the phone field holds, the
  empty string included; a submission in which one of the seven is empty stops with the
  message that names the empty ones.
\<close>

theorem requiredFields_exactly_seven:
  "set (missingFields ci) =
     {field \<in> {''firstName'', ''lastName'', ''email'', ''address'', ''postalCode'', ''city'',
               ''country''}. \<not> truthy (map_of ci field)}
   \<and> missingFields (AList.update ''phone'' p ci) = missingFields ci
   \<and> (if \<forall>field \<in> {''firstName'', ''lastName'', ''email'', ''address'', ''postalCode'',
                       ''city'', ''country''}. truthy (map_of (customerInfo st) field)
      then handleSubmit ev c st =
             (case processPayment ev c st of
                (effs, Inl err) \<Rightarrow>
                  (case message err of
                     Some m \<Rightarrow>
                       (PreventDefault # effs,
                        st\<lparr>isProcessing := False,
                           error := Some (''Maksuvirhe: '' @ interpolate_undefined m)\<rparr>)
                   | None \<Rightarrow>
                       (PreventDefault # effs @ [UncaughtTypeError],
                        st\<lparr>isProcessing := False, error := None\<rparr>))
              | (effs, Inr st2) \<Rightarrow>
                  (PreventDefault # effs, st2\<lparr>isProcessing := False, error := None\<rparr>))
      else handleSubmit ev c st =
             ([PreventDefault],
              st\<lparr>isProcessing := False,
                 error := Some (''Puuttuvat kent'' @ [CHR 0xE4] @ ''t: '' @
                   join '', ''
                     (filter (\<lambda>field. \<not> truthy (map_of (customerInfo st) field))
                        [''firstName'', ''lastName'', ''email'', ''address'', ''postalCode'',
                         ''city'', ''country'']))\<rparr>))"
proof (intro conjI)
  show "set (missingFields ci) =
     {field \<in> {''firstName'', ''lastName'', ''email'', ''address'', ''postalCode'', ''city'',
               ''country''}. \<not> truthy (map_of ci field)}"
    by (simp add: missingFields_set requiredFields_def)
  show "missingFields (AList.update ''phone'' p ci) = missingFields ci"
    by (simp add: missingFields_def requiredFields_def update_conv')
  show "if \<forall>field \<in> {''firstName'', ''lastName'', ''email'', ''address'', ''postalCode'',
                       ''city'', ''country''}. truthy (map_of (customerInfo st) field)
      then handleSubmit ev c st =
             (case processPayment ev c st of
                (effs, Inl err) \<Rightarrow>
                  (case message err of
                     Some m \<Rightarrow>
                       (PreventDefault # effs,
                        st\<lparr>isProcessing := False,
                           error := Some (''Maksuvirhe: '' @ interpolate_undefined m)\<rparr>)
                   | None \<Rightarrow>
                       (PreventDefault # effs @ [UncaughtTypeError],
                        st\<lparr>isProcessing := False, error := None\<rparr>))
              | (effs, Inr st2) \<Rightarrow>
                  (PreventDefault # effs, st2\<lparr>isProcessing := False, error := None\<rparr>))
      else handleSubmit ev c st =
             ([PreventDefault],
              st\<lparr>isProcessing := False,
                 error := Some (''Puuttuvat kent'' @ [CHR 0xE4] @ ''t: '' @
                   join '', ''
                     (filter (\<lambda>field. \<not> truthy (map_of (customerInfo st) field))
                        [''firstName'', ''lastName'', ''email'', ''address'', ''postalCode'',
                         ''city'', ''country'']))\<rparr>)"
  proof (cases "missingFields (customerInfo st) = []")
    case True
    then have all: "\<forall>field \<in> {''firstName'', ''lastName'', ''email'', ''address'',
        ''postalCode'', ''city'', ''country''}. truthy (map_of (customerInfo st) field)"
      by (simp add: missingFields_Nil requiredFields_def)
    show ?thesis
      unfolding if_P [OF all] by (rule handleSubmit_valid [OF True])
  next
    case False
    then have some: "\<not> (\<forall>field \<in> {''firstName'', ''lastName'', ''email'', ''address'',
        ''postalCode'', ''city'', ''country''}. truthy (map_of (customerInfo st) field))"
      by (simp add: missingFields_Nil requiredFields_def)
    from False have pos: "0 < length (missingFields (customerInfo st))" by simp
    have "handleSubmit ev c st =
             ([PreventDefault],
              st\<lparr>isProcessing := False,
                 error := Some (''Puuttuvat kent'' @ [CHR 0xE4] @ ''t: '' @
                   join '', '' (missingFields (customerInfo st)))\<rparr>)"
      using pos by (simp add: handleSubmit_def)
    then show ?thesis
      unfolding if_not_P [OF some] by (simp add: missingFields_def requiredFields_def)
  qed
qed

theorem requiredFields_exactly_seven_witness:
  "map_of (customerInfo (sample_state ''paypal'')) ''phone'' = Some []
   \<and> missingFields (customerInfo (sample_state ''paypal'')) = []
   \<and> handleSubmit (sample_env (Rejected (Error [])) (Rejected (Error []))) sample_cart
        (sample_state ''paypal'') =
       ([PreventDefault, Alert ''PayPal payment is not implemented yet.''],
        sample_state ''paypal'')
   \<and> missingFields (customerInfo (handleInputChange ''country'' [] (sample_state ''paypal''))) =
       [''country'']
   \<and> handleSubmit (sample_env (Rejected (Error [])) (Rejected (Error []))) sample_cart
        (handleInputChange ''country'' [] (sample_state ''paypal'')) =
       ([PreventDefault],
        (handleInputChange ''country'' [] (sample_state ''paypal''))
          \<lparr>error := Some (''Puuttuvat kent'' @ [CHR 0xE4] @ ''t: country'')\<rparr>)"
  using requiredFields_exactly_seven
      [of sample_customer "[]" "sample_state ''paypal''"
          "sample_env (Rejected (Error [])) (Rejected (Error []))" sample_cart]
    requiredFields_exactly_seven
      [of sample_customer "[]" "handleInputChange ''country'' [] (sample_state ''paypal'')"
          "sample_env (Rejected (Error [])) (Rejected (Error []))" sample_cart]
  by (simp add: sample_state_def sample_customer_def Checkout_init_def processPayment_def
        handleInputChange_def missingFields_def requiredFields_def)

text \<open>
  C10. A submission with payment method klarna that passes the validation and whose
  response holds a \<open>redirect_url\<close> but no \<open>html_snippet\<close>: no error is raised,
  \<open>klarnaSnippet\<close> is set to the absent \<open>html_snippet\<close>, so that no inline snippet is
  rendered, and the \<open>redirect_url\<close> is not used for navigation: the only effect besides
  the state update is the call of the Klarna client.
\<close>

theorem handleSubmit_klarna_redirect_only:
  assumes "missingFields (customerInfo st) = []"
    and "paymentMethod st = ''klarna''"
    and "createKlarnaOrder ev (klarnaOrder c st) = Resolved r"
    and "\<not> truthy (html_snippet r)"
    and "truthy (redirect_url r)"
  shows "handleSubmit ev c st =
           ([PreventDefault, KlarnaCall (klarnaOrder c st)],
            st\<lparr>isProcessing := False, error := None, klarnaSnippet := html_snippet r\<rparr>)
       \<and> \<not> truthy (klarnaSnippet (snd (handleSubmit ev c st)))
       \<and> inline_snippet (Checkout c (snd (handleSubmit ev c st))) = None
       \<and> filter is_navigation (fst (handleSubmit ev c st)) = []"
proof -
  have run: "handleSubmit ev c st =
           ([PreventDefault, KlarnaCall (klarnaOrder c st)],
            st\<lparr>isProcessing := False, error := None, klarnaSnippet := html_snippet r\<rparr>)"
    using assms by (simp add: handleSubmit_valid) (simp add: processPayment_def)
  have "inline_snippet (Checkout c (st\<lparr>isProcessing := False, error := None,
          klarnaSnippet := html_snippet r\<rparr>)) = None"
    using assms(4) by (cases "html_snippet r") (simp_all add: Checkout_def)
  with run assms(4) show ?thesis by simp
qed

theorem handleSubmit_klarna_redirect_only_witness:
  "missingFields (customerInfo (sample_state ''klarna'')) = []
   \<and> handleSubmit
       (sample_env
          (Resolved \<lparr>html_snippet = None, redirect_url = Some ''https://pay.example/session''\<rparr>)
          (Rejected (Error [])))
       sample_cart (sample_state ''klarna'') =
       ([PreventDefault, KlarnaCall (klarnaOrder sample_cart (sample_state ''klarna''))],
        (sample_state ''klarna'')\<lparr>klarnaSnippet := None\<rparr>)"
  using handleSubmit_klarna_redirect_only
      [of "sample_state ''klarna''"
          "sample_env
             (Resolved \<lparr>html_snippet = None, redirect_url = Some ''https://pay.example/session''\<rparr>)
             (Rejected (Error []))"
          sample_cart
          "\<lparr>html_snippet = None, redirect_url = Some ''https://pay.example/session''\<rparr>"]
  by (simp add: sample_state_def sample_env_def sample_customer_def Checkout_init_def
        missingFields_def requiredFields_def)




section \<open>The customer data\<close>




section \<open>Rendering\<close>

text \<open>
  C4. When the list of cart items is empty the Checkout view renders the notice that
  the cart is empty, with a link back to the shop, in place of the checkout form: the
  page then holds no form to submit.
\<close>

theorem Checkout_empty_cart:
  assumes "cartItems c = []"
  shows "Checkout c st =
           CartEmpty (''Ostosk'' @ [CHR 0xE4] @ ''rrysi on tyhj'' @ [CHR 0xE4] @ ''!'')
             ''/shop'' ''Jatka shoppailua''
       \<and> \<not> has_form (Checkout c st)"
  using assms by (simp add: Checkout_def)

theorem Checkout_empty_cart_witness:
  "cartItems \<lparr>cartItems = ([] :: string list), cartTotal = (0 :: nat)\<rparr> = []
   \<and> \<not> has_form (Checkout \<lparr>cartItems = ([] :: string list), cartTotal = (0 :: nat)\<rparr>
          Checkout_init)
   \<and> has_form (Checkout sample_cart Checkout_init)"
  using Checkout_empty_cart
      [of "\<lparr>cartItems = ([] :: string list), cartTotal = (0 :: nat)\<rparr>" Checkout_init]
  by (simp add: Checkout_def Checkout_init_def sample_cart_def)

text \<open>
  C5. For each of the three values of \<open>activeTab\<close> (mealPackages, orderTracking,
  newsletter) \<open>renderTabContent\<close> returns the panel of that tab and of no other tab, and
  the admin view never holds two panels at once.
\<close>

theorem renderTabContent_exclusive:
  "(activeTab st = ''mealPackages'' \<longrightarrow>
      renderTabContent st = Some (MealPackagesPanel (meals st) (isLoading st) (error' st)))
   \<and> (activeTab st = ''orderTracking'' \<longrightarrow> renderTabContent st = Some OrderTrackingPanel)
   \<and> (activeTab st = ''newsletter'' \<longrightarrow>
        renderTabContent st = Some (NewsletterPanel (newsletters st)))
   \<and> (\<forall>p. renderTabContent st = Some p \<longrightarrow> panel_tab p = activeTab st)
   \<and> (activeTab st \<in> {''mealPackages'', ''orderTracking'', ''newsletter''} \<longrightarrow>
        (\<exists>p. rendered_panels (Profile (Some ''admin'') st) = [p] \<and> panel_tab p = activeTab st))
   \<and> length (rendered_panels (Profile user_type st)) \<le> 1"
proof -
  have one: "length (rendered_panels (Profile user_type st)) \<le> 1"
    by (cases "renderTabContent st") (simp_all add: Profile_def)
  have tab: "\<forall>p. renderTabContent st = Some p \<longrightarrow> panel_tab p = activeTab st"
    by (auto simp: renderTabContent_def split: if_splits)
  have shown: "activeTab st \<in> {''mealPackages'', ''orderTracking'', ''newsletter''} \<longrightarrow>
        (\<exists>p. rendered_panels (Profile (Some ''admin'') st) = [p] \<and> panel_tab p = activeTab st)"
    by (auto simp: renderTabContent_def Profile_def)
  from one tab shown show ?thesis
    by (simp add: renderTabContent_def)
qed

theorem renderTabContent_exclusive_witness:
  "activeTab sample_profile = ''newsletter''
   \<and> renderTabContent sample_profile = Some (NewsletterPanel [''Kes''])
   \<and> rendered_panels (Profile (Some ''admin'') sample_profile) = [NewsletterPanel [''Kes'']]
   \<and> rendered_panels (Profile (Some ''admin'') (setActiveTab ''orderTracking'' sample_profile)) =
       [OrderTrackingPanel]
   \<and> rendered_panels (Profile (Some ''admin'') (setActiveTab ''mealPackages'' sample_profile)) =
       [MealPackagesPanel [] True None]"
  using renderTabContent_exclusive [of sample_profile]
    renderTabContent_exclusive [of "setActiveTab ''orderTracking'' sample_profile"]
    renderTabContent_exclusive [of "setActiveTab ''mealPackages'' sample_profile"]
  by (simp add: sample_profile_def setActiveTab_def Profile_init_def Profile_def
        renderTabContent_def)

end
